theory Spec2Isabelle
  imports Main "HOL-Library.Sublist" "HOL-Library.Word"
begin

section \<open>Values exchanged with the language model\<close>

text \<open>
  Tool schemas, tool-call arguments and the messages of the telephony socket are JSON
  documents, held by the Python code as nested dicts, lists and strings. A dict is an
  association list read with \<open>map_of\<close>. Numbers are integers here; no handler looks
  at a number.
\<close>

datatype json =
    JNull
  | JBool bool
  | JInt int
  | JString string
  | JArray "json list"
  | JObject "(string \<times> json) list"

datatype exn =
    KeyError string
  | TypeError
  | StopAsyncIteration
  | JSONDecodeError
  | UnknownFunction string
  | WaveError
  | StructError
  | Raised string

text \<open>Python's \<open>d[k]\<close> with a string key: only a dict can be subscripted that way.\<close>

fun getitem :: "json \<Rightarrow> string \<Rightarrow> exn + json" where
  "getitem (JObject kvs) k =
     (case map_of kvs k of None \<Rightarrow> Inl (KeyError k) | Some v \<Rightarrow> Inr v)"
| "getitem _ k = Inl TypeError"

record message =
  role :: string
  content :: string

text \<open>
  \<open>OpenAILLMContext\<close>: the ordered transcript and the tools offered to the model.
  \<open>set_tools\<close> replaces the tool list, \<open>add_message\<close> appends one message.
  A context without tools is the empty list.
\<close>

record OpenAILLMContext =
  messages :: "message list"
  tools :: "json list"

datatype frame = OpenAILLMContextFrame

datatype FrameDirection = DOWNSTREAM | UPSTREAM

datatype log_line =
    Printed string
  | SavingData "(string \<times> json) list"

text \<open>
  What a handler can reach through \<open>params\<close> and mutate in place: the shared
  conversation object (\<open>params.context\<close>), the frames queued on the language-model
  service (\<open>params.llm.queue_frame\<close>) and the console and logger output. The queued frame
  refers to the shared conversation object, it does not copy it.
\<close>

record session =
  llm_context :: OpenAILLMContext
  queued_frames :: "(frame \<times> FrameDirection) list"
  console :: "log_line list"

text \<open>
  A Python call mutates the session and may raise: the result is the session as the call
  left it, and the exception if there is one. Nothing is rolled back by a raise.
\<close>

type_synonym outcome = "session \<times> exn option"

type_synonym callback = "message list option \<Rightarrow> session \<Rightarrow> outcome"

record FunctionCallParams =
  arguments :: "(string \<times> json) list"
  result_callback :: callback

definition set_tools :: "json list \<Rightarrow> session \<Rightarrow> session" where
  "set_tools ts s = s\<lparr>llm_context := (llm_context s)\<lparr>tools := ts\<rparr>\<rparr>"

definition add_message :: "message \<Rightarrow> session \<Rightarrow> session" where
  "add_message m s =
     s\<lparr>llm_context := (llm_context s)\<lparr>messages := messages (llm_context s) @ [m]\<rparr>\<rparr>"

definition queue_frame :: "frame \<Rightarrow> FrameDirection \<Rightarrow> session \<Rightarrow> session" where
  "queue_frame f d s = s\<lparr>queued_frames := queued_frames s @ [(f, d)]\<rparr>"

definition print_line :: "string \<Rightarrow> session \<Rightarrow> session" where
  "print_line l s = s\<lparr>console := console s @ [Printed l]\<rparr>"

definition logger_info :: "log_line \<Rightarrow> session \<Rightarrow> session" where
  "logger_info l s = s\<lparr>console := console s @ [l]\<rparr>"

section \<open>MedFlow: the tool schemas and instructions of bot.py\<close>

definition array_of_objects :: "(string \<times> json) list \<Rightarrow> json" where
  "array_of_objects props =
     JObject [(''type'', JString ''array''),
              (''items'', JObject [(''type'', JString ''object''),
                                   (''properties'', JObject props)])]"

definition string_property :: "string \<Rightarrow> json" where
  "string_property d = JObject [(''type'', JString ''string''), (''description'', JString d)]"

definition function_tool :: "string \<Rightarrow> string \<Rightarrow> (string \<times> json) list \<Rightarrow> json" where
  "function_tool n d props =
     JObject [(''type'', JString ''function''),
              (''function'',
                 JObject [(''name'', JString n),
                          (''description'', JString d),
                          (''parameters'',
                             JObject [(''type'', JString ''object''),
                                      (''properties'', JObject props)])])]"

definition verify_birthday_tool :: json where
  "verify_birthday_tool =
     function_tool ''verify_birthday''
       ''Verify the patient's birthday to confirm their identity.''
       [(''birthday'', string_property
           ''The patient's birthdate in YYYY-MM-DD format. Convert any provided format to this standard.'')]"

definition list_prescriptions_tool :: json where
  "list_prescriptions_tool =
     function_tool ''list_prescriptions''
       ''Collect the patient's current prescription medications.''
       [(''prescriptions'', array_of_objects
           [(''medication'', string_property ''The medication name''),
            (''dosage'', string_property ''The prescription dosage'')])]"

definition list_allergies_tool :: json where
  "list_allergies_tool =
     function_tool ''list_allergies''
       ''Collect the patient's allergy information.''
       [(''allergies'', array_of_objects
           [(''name'', string_property ''What the patient is allergic to'')])]"

definition list_conditions_tool :: json where
  "list_conditions_tool =
     function_tool ''list_conditions''
       ''Collect the patient's medical conditions.''
       [(''conditions'', array_of_objects
           [(''name'', string_property ''The patient's medical condition'')])]"

definition list_visit_reasons_tool :: json where
  "list_visit_reasons_tool =
     function_tool ''list_visit_reasons''
       ''Collect the reason for the patient's doctor visit.''
       [(''visit_reasons'', array_of_objects
           [(''name'', string_property ''The patient's reason for visiting the doctor'')])]"

definition system_message :: "string \<Rightarrow> message" where
  "system_message c = \<lparr>role = ''system'', content = c\<rparr>"

definition persona_instruction :: message where
  "persona_instruction = system_message
     ''You are Jessica, a professional medical intake assistant for MedFlow. Your role is to collect essential patient information before their doctor visit. You're speaking with Chad Bailey. Address the patient by their first name and maintain a polite, professional demeanor. You're not a medical professional, so avoid providing medical advice. Keep responses concise and focused on information collection. Don't make assumptions about patient data - ask for clarification if responses are unclear. Start by introducing yourself, then ask the patient to confirm their identity by providing their birthday including the year. When they respond, call the verify_birthday function.''"

definition prescriptions_instruction :: message where
  "prescriptions_instruction = system_message
     ''Thank the patient for confirming their identity, then ask them to list their current prescriptions. Each prescription should include both the medication name and dosage. Only call the list_prescriptions function when you have complete information.''"

definition birthday_retry_instruction :: message where
  "birthday_retry_instruction = system_message
     ''The provided birthday is incorrect. Please ask the patient for their birthday again and call the verify_birthday function when they respond.''"

definition allergies_instruction :: message where
  "allergies_instruction = system_message
     ''Next, ask the patient about their allergies. Once they've provided their allergy information or confirmed they have none, call the list_allergies function.''"

definition conditions_instruction :: message where
  "conditions_instruction = system_message
     ''Now ask the patient about any medical conditions the doctor should be aware of. Once they've answered, call the list_conditions function.''"

definition visit_reasons_instruction :: message where
  "visit_reasons_instruction = system_message
     ''Finally, ask the patient the reason for their doctor visit today. Once they answer, call the list_visit_reasons function.''"

definition closing_instruction :: message where
  "closing_instruction = system_message
     ''Thank the patient for completing their intake and conclude the conversation professionally.''"

section \<open>MedFlow: IntakeProcessor\<close>

definition IntakeProcessor_init :: "session \<Rightarrow> session" where
  "IntakeProcessor_init s =
     set_tools [verify_birthday_tool]
       (add_message persona_instruction
          (print_line ''Initializing MedFlow intake processor'' s))"

definition verify_birthday :: "FunctionCallParams \<Rightarrow> session \<Rightarrow> outcome" where
  "verify_birthday params s =
     (case map_of (arguments params) ''birthday'' of
        None \<Rightarrow> (s, Some (KeyError ''birthday''))
      | Some b \<Rightarrow>
          if b = JString ''1983-01-01''
          then result_callback params (Some [prescriptions_instruction])
                 (set_tools [list_prescriptions_tool] s)
          else result_callback params (Some [birthday_retry_instruction]) s)"

definition save_data :: "(string \<times> json) list \<Rightarrow> callback \<Rightarrow> session \<Rightarrow> outcome" where
  "save_data args cb s = cb None (logger_info (SavingData args) s)"

definition list_prescriptions :: "FunctionCallParams \<Rightarrow> session \<Rightarrow> outcome" where
  "list_prescriptions params s =
     (let s1 = print_line ''Processing prescription information'' s;
          s2 = set_tools [list_allergies_tool] s1;
          s3 = add_message allergies_instruction s2;
          s4 = queue_frame OpenAILLMContextFrame DOWNSTREAM s3
      in save_data (arguments params) (result_callback params) s4)"

definition list_allergies :: "FunctionCallParams \<Rightarrow> session \<Rightarrow> outcome" where
  "list_allergies params s =
     (let s1 = print_line ''Processing allergy information'' s;
          s2 = set_tools [list_conditions_tool] s1;
          s3 = add_message conditions_instruction s2;
          s4 = queue_frame OpenAILLMContextFrame DOWNSTREAM s3
      in save_data (arguments params) (result_callback params) s4)"

definition list_conditions :: "FunctionCallParams \<Rightarrow> session \<Rightarrow> outcome" where
  "list_conditions params s =
     (let s1 = print_line ''Processing medical conditions'' s;
          s2 = set_tools [list_visit_reasons_tool] s1;
          s3 = add_message visit_reasons_instruction s2;
          s4 = queue_frame OpenAILLMContextFrame DOWNSTREAM s3
      in save_data (arguments params) (result_callback params) s4)"

definition list_visit_reasons :: "FunctionCallParams \<Rightarrow> session \<Rightarrow> outcome" where
  "list_visit_reasons params s =
     (let s1 = print_line ''Processing visit reasons'' s;
          s2 = set_tools [] s1;
          s3 = add_message closing_instruction s2;
          s4 = queue_frame OpenAILLMContextFrame DOWNSTREAM s3
      in save_data (arguments params) (result_callback params) s4)"

text \<open>
  \<open>main\<close> registers the five handlers by name on the language-model service, once, for
  the whole session; a tool call is dispatched to the handler registered under its name.
  A name with no registration reaches no handler.
\<close>

definition registered_functions ::
    "(string \<times> (FunctionCallParams \<Rightarrow> session \<Rightarrow> outcome)) list" where
  "registered_functions =
     [(''verify_birthday'', verify_birthday),
      (''list_prescriptions'', list_prescriptions),
      (''list_allergies'', list_allergies),
      (''list_conditions'', list_conditions),
      (''list_visit_reasons'', list_visit_reasons)]"

definition call_function ::
    "callback \<Rightarrow> string \<Rightarrow> (string \<times> json) list \<Rightarrow> session \<Rightarrow> outcome" where
  "call_function cb n args s =
     (case map_of registered_functions n of
        None \<Rightarrow> (s, Some (UnknownFunction n))
      | Some handler \<Rightarrow> handler \<lparr>arguments = args, result_callback = cb\<rparr> s)"

text \<open>
  The session as \<open>main\<close> sets it up: an empty message list, no tools, then the
  constructor of \<open>IntakeProcessor\<close>.
\<close>

definition empty_session :: session where
  "empty_session =
     \<lparr>llm_context = \<lparr>messages = [], tools = []\<rparr>, queued_frames = [], console = []\<rparr>"

definition initial_session :: session where
  "initial_session = IntakeProcessor_init empty_session"

text \<open>
  The result callback belongs to the framework. The handlers rely on two things about it,
  both written in bot.py: a list of messages handed to it reaches the conversation, and
  \<open>None\<close> adds nothing to the conversation (the comment in \<open>save_data\<close>).
  \<open>append_result\<close> is the callback that does exactly that and never raises.
\<close>

definition append_result :: callback where
  "append_result r s =
     (case r of None \<Rightarrow> (s, None) | Some ms \<Rightarrow> (fold add_message ms s, None))"

text \<open>A callback that raises, for a persistence step that fails.\<close>

definition failing_callback :: callback where
  "failing_callback r s = (s, Some (Raised ''result callback failed''))"

section \<open>The dialogue state, read off the installed tools\<close>

text \<open>
  bot.py keeps no state variable: the step of the conversation is the tool list installed
  in the conversation object. \<open>tool_name\<close> is \<open>tool["function"]["name"]\<close>.
\<close>

definition tool_name :: "json \<Rightarrow> string option" where
  "tool_name t =
     (case getitem t ''function'' of
        Inl e \<Rightarrow> None
      | Inr f \<Rightarrow> (case getitem f ''name'' of Inr (JString n) \<Rightarrow> Some n | _ \<Rightarrow> None))"

definition installed_names :: "session \<Rightarrow> string list" where
  "installed_names s = List.map_filter tool_name (tools (llm_context s))"

datatype DialogueState =
    AwaitingIdentity
  | CollectingPrescriptions
  | CollectingAllergies
  | CollectingConditions
  | CollectingVisitReasons
  | Complete

definition dialogue_chain :: "DialogueState list" where
  "dialogue_chain =
     [AwaitingIdentity, CollectingPrescriptions, CollectingAllergies,
      CollectingConditions, CollectingVisitReasons, Complete]"

definition state_of_names :: "string list \<Rightarrow> DialogueState option" where
  "state_of_names ns =
     (if ns = [''verify_birthday''] then Some AwaitingIdentity
      else if ns = [''list_prescriptions''] then Some CollectingPrescriptions
      else if ns = [''list_allergies''] then Some CollectingAllergies
      else if ns = [''list_conditions''] then Some CollectingConditions
      else if ns = [''list_visit_reasons''] then Some CollectingVisitReasons
      else if ns = [] then Some Complete
      else None)"

definition dialogue_state :: "session \<Rightarrow> DialogueState option" where
  "dialogue_state s = state_of_names (installed_names s)"

text \<open>
  The generation stage is given the installed tools and nothing else: a tool call is
  permitted when it names one of them.
\<close>

definition permitted :: "session \<Rightarrow> string \<Rightarrow> bool" where
  "permitted s n = (n \<in> set (installed_names s))"

text \<open>
  A session as a sequence of tool calls: \<open>run\<close> lists the sessions visited, the first
  one included. \<open>permitted_run\<close> holds when every call names a tool installed at the
  moment it is made.
\<close>

fun run :: "callback \<Rightarrow> (string \<times> (string \<times> json) list) list \<Rightarrow> session \<Rightarrow> session list" where
  "run cb [] s = [s]"
| "run cb (c # cs) s = s # run cb cs (fst (call_function cb (fst c) (snd c) s))"

fun permitted_run :: "callback \<Rightarrow> (string \<times> (string \<times> json) list) list \<Rightarrow> session \<Rightarrow> bool" where
  "permitted_run cb [] s = True"
| "permitted_run cb (c # cs) s =
     (permitted s (fst c) \<and> permitted_run cb cs (fst (call_function cb (fst c) (snd c) s)))"

definition keeps_tools :: "callback \<Rightarrow> bool" where
  "keeps_tools cb = (\<forall>r s. tools (llm_context (fst (cb r s))) = tools (llm_context s))"

text \<open>The step that follows each step of the conversation; the last one has none.\<close>

fun next_state :: "DialogueState \<Rightarrow> DialogueState" where
  "next_state AwaitingIdentity = CollectingPrescriptions"
| "next_state CollectingPrescriptions = CollectingAllergies"
| "next_state CollectingAllergies = CollectingConditions"
| "next_state CollectingConditions = CollectingVisitReasons"
| "next_state CollectingVisitReasons = Complete"
| "next_state Complete = Complete"

section \<open>VoiceFlow: the recording sink\<close>

text \<open>
  The files written are kept as the list of writes, in order; \<open>logged\<close> is the logger
  output. Audio is a byte string.
\<close>

type_synonym byte = "8 word"


text \<open>
  What the \<open>with wave.open(buffer, "wb") as wf\<close> block of \<open>save_audio\<close> leaves in
  the buffer. \<open>setsampwidth(2)\<close> is accepted; \<open>setnchannels\<close> raises \<open>wave.Error\<close>
  for fewer than one channel and \<open>setframerate\<close> for a rate that is not positive.
  \<open>writeframes\<close> writes the 44-byte header of a PCM file and then the frames as they
  are (on a little-endian machine), and leaves the length of the frames in the header;
  the header is packed with \<open>struct.pack\<close>, which raises \<open>struct.error\<close> for a field
  that does not fit its 16 or 32 bits. An exception leaves the block before anything is
  in a file.
\<close>

definition le16 :: "nat \<Rightarrow> byte list" where
  "le16 n = [of_nat (n mod 256), of_nat (n div 256 mod 256)]"

definition le32 :: "nat \<Rightarrow> byte list" where
  "le32 n = le16 (n mod 65536) @ le16 (n div 65536 mod 65536)"

definition ascii :: "string \<Rightarrow> byte list" where
  "ascii cs = map (\<lambda>c. of_nat (of_char c)) cs"












section \<open>VoiceFlow: the socket endpoint\<close>

text \<open>
  \<open>websocket_endpoint\<close> of voiceflow_server.py. The text messages of the socket are a
  list; asking for a message when none is left raises \<open>StopAsyncIteration\<close>.
  \<open>loads\<close> is \<open>json.loads\<close>, a parameter. The endpoint ends by calling
  \<open>run_voice_assistant\<close>: the result is that call, with the messages left on the socket.
\<close>

record assistant_call =
  websocket_client :: "string list"
  stream_sid :: json
  call_sid :: json
  testing :: bool

definition websocket_endpoint ::
    "(string \<Rightarrow> exn + json) \<Rightarrow> bool \<Rightarrow> string list \<Rightarrow> exn + assistant_call" where
  "websocket_endpoint loads app_testing msgs =
     (case msgs of
        [] \<Rightarrow> Inl StopAsyncIteration
      | first # others \<Rightarrow>
          (case others of
             [] \<Rightarrow> Inl StopAsyncIteration
           | second # rest \<Rightarrow>
               (case loads second of
                  Inl e \<Rightarrow> Inl e
                | Inr call_data \<Rightarrow>
                    (case getitem call_data ''start'' of
                       Inl e \<Rightarrow> Inl e
                     | Inr start1 \<Rightarrow>
                         (case getitem start1 ''streamSid'' of
                            Inl e \<Rightarrow> Inl e
                          | Inr ssid \<Rightarrow>
                              (case getitem call_data ''start'' of
                                 Inl e \<Rightarrow> Inl e
                               | Inr start2 \<Rightarrow>
                                   (case getitem start2 ''callSid'' of
                                      Inl e \<Rightarrow> Inl e
                                    | Inr csid \<Rightarrow>
                                        Inr \<lparr>websocket_client = rest, stream_sid = ssid,
                                             call_sid = csid, testing = app_testing\<rparr>)))))))"

text \<open>
  The first thing \<open>run_voice_assistant\<close> does with the two identifiers: it hands them
  to the serializer of the transport, with two settings read from the environment.
\<close>

record TwilioFrameSerializer =
  serializer_stream_sid :: json
  serializer_call_sid :: json
  account_sid :: string
  auth_token :: string

definition run_voice_assistant_serializer ::
    "string \<Rightarrow> string \<Rightarrow> assistant_call \<Rightarrow> TwilioFrameSerializer" where
  "run_voice_assistant_serializer env_account_sid env_auth_token c =
     \<lparr>serializer_stream_sid = stream_sid c, serializer_call_sid = call_sid c,
      account_sid = env_account_sid, auth_token = env_auth_token\<rparr>"

text \<open>
  A start message as the telephony service sends it, already parsed, and a stand-in for
  \<open>json.loads\<close> that knows this one message; the call identifier is a number on
  purpose.
\<close>

definition start_message :: json where
  "start_message =
     JObject [(''event'', JString ''start''),
              (''start'', JObject [(''streamSid'', JString ''MZ-1 not a uuid''),
                                   (''callSid'', JInt 42)])]"

definition loads_start :: "string \<Rightarrow> exn + json" where
  "loads_start m = (if m = ''start'' then Inr start_message else Inl JSONDecodeError)"

section \<open>Basic facts about the handlers\<close>

lemma tool_name_function_tool [simp]: "tool_name (function_tool n d props) = Some n"
  by (simp add: tool_name_def function_tool_def)

lemma tool_names [simp]:
  "tool_name verify_birthday_tool = Some ''verify_birthday''"
  "tool_name list_prescriptions_tool = Some ''list_prescriptions''"
  "tool_name list_allergies_tool = Some ''list_allergies''"
  "tool_name list_conditions_tool = Some ''list_conditions''"
  "tool_name list_visit_reasons_tool = Some ''list_visit_reasons''"
  by (simp_all add: verify_birthday_tool_def list_prescriptions_tool_def list_allergies_tool_def
      list_conditions_tool_def list_visit_reasons_tool_def)

lemma session_fields [simp]:
  "llm_context (set_tools ts s) = (llm_context s)\<lparr>tools := ts\<rparr>"
  "llm_context (add_message m s) = (llm_context s)\<lparr>messages := messages (llm_context s) @ [m]\<rparr>"
  "llm_context (queue_frame f d s) = llm_context s"
  "llm_context (print_line l s) = llm_context s"
  "llm_context (logger_info e s) = llm_context s"
  by (simp_all add: set_tools_def add_message_def queue_frame_def print_line_def logger_info_def)

lemma fold_add_message_tools [simp]:
  "tools (llm_context (fold add_message ms s)) = tools (llm_context s)"
  by (induction ms arbitrary: s) simp_all

lemma fold_add_message_messages [simp]:
  "messages (llm_context (fold add_message ms s)) = messages (llm_context s) @ ms"
  by (induction ms arbitrary: s) simp_all

lemma keeps_tools_append_result: "keeps_tools append_result"
  by (simp add: keeps_tools_def append_result_def split: option.splits)

lemma keeps_tools_failing_callback: "keeps_tools failing_callback"
  by (simp add: keeps_tools_def failing_callback_def)

lemma keeps_toolsD: "keeps_tools cb \<Longrightarrow> tools (llm_context (fst (cb r s))) = tools (llm_context s)"
  by (simp add: keeps_tools_def)


lemma installed_names_tools:
  "installed_names s = List.map_filter tool_name (tools (llm_context s))"
  by (simp add: installed_names_def)

lemma dialogue_state_tools:
  "tools (llm_context s') = tools (llm_context s) \<Longrightarrow> dialogue_state s' = dialogue_state s"
  by (simp add: dialogue_state_def installed_names_def)

lemma verify_birthday_missing:
  "map_of args ''birthday'' = None \<Longrightarrow>
   verify_birthday \<lparr>arguments = args, result_callback = cb\<rparr> s = (s, Some (KeyError ''birthday''))"
  by (simp add: verify_birthday_def)

lemma verify_birthday_match:
  "map_of args ''birthday'' = Some (JString ''1983-01-01'') \<Longrightarrow>
   verify_birthday \<lparr>arguments = args, result_callback = cb\<rparr> s =
     cb (Some [prescriptions_instruction]) (set_tools [list_prescriptions_tool] s)"
  by (simp add: verify_birthday_def)

lemma verify_birthday_mismatch:
  "map_of args ''birthday'' = Some b \<Longrightarrow> b \<noteq> JString ''1983-01-01'' \<Longrightarrow>
   verify_birthday \<lparr>arguments = args, result_callback = cb\<rparr> s =
     cb (Some [birthday_retry_instruction]) s"
  by (simp add: verify_birthday_def)

lemma verify_birthday_tools:
  assumes "keeps_tools cb"
  shows "tools (llm_context (fst (verify_birthday \<lparr>arguments = args, result_callback = cb\<rparr> s)))
           = (if map_of args ''birthday'' = Some (JString ''1983-01-01'')
              then [list_prescriptions_tool] else tools (llm_context s))"
proof (cases "map_of args ''birthday''")
  case None
  then show ?thesis by (simp add: verify_birthday_missing)
next
  case (Some b)
  then show ?thesis
    using assms by (cases "b = JString ''1983-01-01''")
      (simp_all add: verify_birthday_match verify_birthday_mismatch keeps_toolsD)
qed

lemma list_prescriptions_tools:
  "keeps_tools cb \<Longrightarrow>
   tools (llm_context (fst (list_prescriptions \<lparr>arguments = args, result_callback = cb\<rparr> s)))
     = [list_allergies_tool]"
  by (simp add: list_prescriptions_def save_data_def Let_def keeps_toolsD)

lemma list_allergies_tools:
  "keeps_tools cb \<Longrightarrow>
   tools (llm_context (fst (list_allergies \<lparr>arguments = args, result_callback = cb\<rparr> s)))
     = [list_conditions_tool]"
  by (simp add: list_allergies_def save_data_def Let_def keeps_toolsD)

lemma list_conditions_tools:
  "keeps_tools cb \<Longrightarrow>
   tools (llm_context (fst (list_conditions \<lparr>arguments = args, result_callback = cb\<rparr> s)))
     = [list_visit_reasons_tool]"
  by (simp add: list_conditions_def save_data_def Let_def keeps_toolsD)

lemma list_visit_reasons_tools:
  "keeps_tools cb \<Longrightarrow>
   tools (llm_context (fst (list_visit_reasons \<lparr>arguments = args, result_callback = cb\<rparr> s)))
     = []"
  by (simp add: list_visit_reasons_def save_data_def Let_def keeps_toolsD)

lemma state_of_names_simps [simp]:
  "state_of_names [''verify_birthday''] = Some AwaitingIdentity"
  "state_of_names [''list_prescriptions''] = Some CollectingPrescriptions"
  "state_of_names [''list_allergies''] = Some CollectingAllergies"
  "state_of_names [''list_conditions''] = Some CollectingConditions"
  "state_of_names [''list_visit_reasons''] = Some CollectingVisitReasons"
  "state_of_names [] = Some Complete"
  by (simp_all add: state_of_names_def)

lemma permitted_in_state:
  assumes "dialogue_state s = Some q" and "permitted s n"
  shows "(q = AwaitingIdentity \<and> n = ''verify_birthday'')
       \<or> (q = CollectingPrescriptions \<and> n = ''list_prescriptions'')
       \<or> (q = CollectingAllergies \<and> n = ''list_allergies'')
       \<or> (q = CollectingConditions \<and> n = ''list_conditions'')
       \<or> (q = CollectingVisitReasons \<and> n = ''list_visit_reasons'')"
  using assms
  by (auto simp add: dialogue_state_def state_of_names_def permitted_def split: if_splits)

lemma call_function_registered:
  "call_function cb ''verify_birthday'' args s =
     verify_birthday \<lparr>arguments = args, result_callback = cb\<rparr> s"
  "call_function cb ''list_prescriptions'' args s =
     list_prescriptions \<lparr>arguments = args, result_callback = cb\<rparr> s"
  "call_function cb ''list_allergies'' args s =
     list_allergies \<lparr>arguments = args, result_callback = cb\<rparr> s"
  "call_function cb ''list_conditions'' args s =
     list_conditions \<lparr>arguments = args, result_callback = cb\<rparr> s"
  "call_function cb ''list_visit_reasons'' args s =
     list_visit_reasons \<lparr>arguments = args, result_callback = cb\<rparr> s"
  by (simp_all add: call_function_def registered_functions_def)

lemma dialogue_state_of_tools:
  "tools (llm_context s) = ts \<Longrightarrow>
   dialogue_state s = state_of_names (List.map_filter tool_name ts)"
  by (simp add: dialogue_state_def installed_names_def)

lemma call_function_step:
  assumes k: "keeps_tools cb" and q: "dialogue_state s = Some q" and p: "permitted s n"
  shows "q \<noteq> Complete \<and>
         (dialogue_state (fst (call_function cb n args s)) = Some q
          \<or> dialogue_state (fst (call_function cb n args s)) = Some (next_state q))"
proof -
  let ?p = "\<lparr>arguments = args, result_callback = cb\<rparr>"
  have vb: "dialogue_state (fst (verify_birthday ?p s)) = Some CollectingPrescriptions
            \<or> dialogue_state (fst (verify_birthday ?p s)) = dialogue_state s"
  proof (cases "map_of args ''birthday'' = Some (JString ''1983-01-01'')")
    case True
    with verify_birthday_tools [OF k, of args s]
    have "tools (llm_context (fst (verify_birthday ?p s))) = [list_prescriptions_tool]"
      by simp
    from dialogue_state_of_tools [OF this] show ?thesis by simp
  next
    case False
    with verify_birthday_tools [OF k, of args s]
    have "tools (llm_context (fst (verify_birthday ?p s))) = tools (llm_context s)"
      by simp
    from dialogue_state_tools [OF this] show ?thesis by simp
  qed
  have lp: "dialogue_state (fst (list_prescriptions ?p s)) = Some CollectingAllergies"
    using dialogue_state_of_tools [OF list_prescriptions_tools [OF k, of args s]] by simp
  have la: "dialogue_state (fst (list_allergies ?p s)) = Some CollectingConditions"
    using dialogue_state_of_tools [OF list_allergies_tools [OF k, of args s]] by simp
  have lc: "dialogue_state (fst (list_conditions ?p s)) = Some CollectingVisitReasons"
    using dialogue_state_of_tools [OF list_conditions_tools [OF k, of args s]] by simp
  have lv: "dialogue_state (fst (list_visit_reasons ?p s)) = Some Complete"
    using dialogue_state_of_tools [OF list_visit_reasons_tools [OF k, of args s]] by simp
  from permitted_in_state [OF q p] show ?thesis
  proof (elim disjE conjE)
    assume "q = AwaitingIdentity" and n: "n = ''verify_birthday''"
    with vb q show ?thesis
      unfolding n call_function_registered by auto
  next
    assume "q = CollectingPrescriptions" and n: "n = ''list_prescriptions''"
    with lp show ?thesis
      unfolding n call_function_registered by simp
  next
    assume "q = CollectingAllergies" and n: "n = ''list_allergies''"
    with la show ?thesis
      unfolding n call_function_registered by simp
  next
    assume "q = CollectingConditions" and n: "n = ''list_conditions''"
    with lc show ?thesis
      unfolding n call_function_registered by simp
  next
    assume "q = CollectingVisitReasons" and n: "n = ''list_visit_reasons''"
    with lv show ?thesis
      unfolding n call_function_registered by simp
  qed
qed

lemma run_head: "\<exists>rest. run cb cs s = s # rest"
  by (cases cs) simp_all

lemma chain_from:
  "q \<noteq> Complete \<Longrightarrow>
   dropWhile (\<lambda>x. x \<noteq> q) dialogue_chain = q # dropWhile (\<lambda>x. x \<noteq> next_state q) dialogue_chain"
  by (cases q) (simp_all add: dialogue_chain_def)

lemma chain_from_nonempty:
  "\<exists>rest. dropWhile (\<lambda>x. x \<noteq> q) dialogue_chain = q # rest"
  by (cases q) (simp_all add: dialogue_chain_def)

lemma run_visits_chain:
  assumes k: "keeps_tools cb"
  shows "permitted_run cb calls s \<Longrightarrow> dialogue_state s = Some q \<Longrightarrow>
         prefix (remdups_adj (map dialogue_state (run cb calls s)))
                (map Some (dropWhile (\<lambda>x. x \<noteq> q) dialogue_chain))"
proof (induction calls arbitrary: s q)
  case Nil
  obtain rest where "dropWhile (\<lambda>x. x \<noteq> q) dialogue_chain = q # rest"
    using chain_from_nonempty by blast
  with Nil show ?case by simp
next
  case (Cons c cs)
  let ?s' = "fst (call_function cb (fst c) (snd c) s)"
  from Cons.prems have p: "permitted s (fst c)" and pr: "permitted_run cb cs ?s'"
    by simp_all
  obtain rest where rest: "run cb cs ?s' = ?s' # rest"
    using run_head by blast
  from call_function_step [OF k Cons.prems(2) p, of "snd c"]
  have nc: "q \<noteq> Complete"
    and st: "dialogue_state ?s' = Some q \<or> dialogue_state ?s' = Some (next_state q)"
    by simp_all
  from st show ?case
  proof
    assume same: "dialogue_state ?s' = Some q"
    from Cons.IH [OF pr same] show ?thesis
      using Cons.prems(2) same rest by simp
  next
    assume adv: "dialogue_state ?s' = Some (next_state q)"
    show ?thesis
    proof (cases "next_state q = q")
      case True
      with adv Cons.IH [OF pr] Cons.prems(2) rest show ?thesis by simp
    next
      case False
      from Cons.IH [OF pr adv] show ?thesis
        using Cons.prems(2) adv rest False chain_from [OF nc] by simp
    qed
  qed
qed

lemma initial_session_state: "dialogue_state initial_session = Some AwaitingIdentity"
  by (simp add: initial_session_def IntakeProcessor_init_def dialogue_state_def
      installed_names_def)

lemma initial_session_names: "installed_names initial_session = [''verify_birthday'']"
  by (simp add: initial_session_def IntakeProcessor_init_def installed_names_def)

lemma initial_session_tools: "tools (llm_context initial_session) = [verify_birthday_tool]"
  by (simp add: initial_session_def IntakeProcessor_init_def)

lemma initial_session_messages: "messages (llm_context initial_session) = [persona_instruction]"
  by (simp add: initial_session_def IntakeProcessor_init_def empty_session_def)

section \<open>Identity verification\<close>

text \<open>
  Claim C10. Identity is decided by comparing \<open>arguments["birthday"]\<close> with the
  constant \<open>"1983-01-01"\<close>, and by nothing else. For every arguments object that has the
  key, every callback and every session, \<open>verify_birthday\<close> takes the success branch
  (installs \<open>list_prescriptions\<close> and hands over the prescriptions instruction) when the
  value is the string \<open>1983-01-01\<close> character for character, and the retry branch for every
  other value, another spelling of the same date included. Observed through the
  conversation: the instruction that arrives last is the prescriptions instruction if
  and only if the value is that string.
\<close>

theorem verify_birthday_exact_match:
  assumes "map_of args ''birthday'' = Some b"
  shows "verify_birthday \<lparr>arguments = args, result_callback = cb\<rparr> s =
           (if b = JString ''1983-01-01''
            then cb (Some [prescriptions_instruction]) (set_tools [list_prescriptions_tool] s)
            else cb (Some [birthday_retry_instruction]) s)
       \<and> ((last (messages (llm_context (fst
               (verify_birthday \<lparr>arguments = args, result_callback = append_result\<rparr> s))))
             = prescriptions_instruction) = (b = JString ''1983-01-01''))"
  using assms
  by (simp add: verify_birthday_def append_result_def prescriptions_instruction_def
      birthday_retry_instruction_def system_message_def)

theorem verify_birthday_exact_match_witness:
  "map_of [(''birthday'', JString ''1983-1-1'')] ''birthday'' = Some (JString ''1983-1-1'')
   \<and> verify_birthday \<lparr>arguments = [(''birthday'', JString ''1983-1-1'')],
                       result_callback = append_result\<rparr> initial_session
       = append_result (Some [birthday_retry_instruction]) initial_session
   \<and> verify_birthday \<lparr>arguments = [(''birthday'', JString ''01/01/1983'')],
                       result_callback = append_result\<rparr> initial_session
       = append_result (Some [birthday_retry_instruction]) initial_session
   \<and> verify_birthday \<lparr>arguments = [(''birthday'', JString ''1983-01-01'')],
                       result_callback = append_result\<rparr> initial_session
       = append_result (Some [prescriptions_instruction])
           (set_tools [list_prescriptions_tool] initial_session)"
  using verify_birthday_exact_match [of "[(''birthday'', JString ''1983-1-1'')]"
          "JString ''1983-1-1''" append_result initial_session]
        verify_birthday_exact_match [of "[(''birthday'', JString ''01/01/1983'')]"
          "JString ''01/01/1983''" append_result initial_session]
        verify_birthday_exact_match [of "[(''birthday'', JString ''1983-01-01'')]"
          "JString ''1983-01-01''" append_result initial_session]
  by simp

section \<open>A wrong birthday\<close>

text \<open>
  Claim C2. When the birthday supplied is not the reference value, \<open>verify_birthday\<close>
  does one thing: it calls the result callback once, with a list holding the single
  system instruction that asks for the birthday again. It installs no tool. With the
  callback that appends the result, the installed tools and so the dialogue state are
  what they were (\<open>AwaitingIdentity\<close> with \<open>verify_birthday\<close> when the call is made
  there), the conversation has grown by that one instruction, and the queued frames and
  the console are untouched.
\<close>

theorem verify_birthday_mismatch_retries:
  assumes "map_of args ''birthday'' = Some b" and "b \<noteq> JString ''1983-01-01''"
  shows "verify_birthday \<lparr>arguments = args, result_callback = cb\<rparr> s
           = cb (Some [birthday_retry_instruction]) s
       \<and> role birthday_retry_instruction = ''system''
       \<and> verify_birthday \<lparr>arguments = args, result_callback = append_result\<rparr> s
           = (add_message birthday_retry_instruction s, None)
       \<and> tools (llm_context (fst (verify_birthday
             \<lparr>arguments = args, result_callback = append_result\<rparr> s))) = tools (llm_context s)
       \<and> dialogue_state (fst (verify_birthday
             \<lparr>arguments = args, result_callback = append_result\<rparr> s)) = dialogue_state s
       \<and> messages (llm_context (fst (verify_birthday
             \<lparr>arguments = args, result_callback = append_result\<rparr> s)))
           = messages (llm_context s) @ [birthday_retry_instruction]
       \<and> queued_frames (fst (verify_birthday
             \<lparr>arguments = args, result_callback = append_result\<rparr> s)) = queued_frames s
       \<and> console (fst (verify_birthday
             \<lparr>arguments = args, result_callback = append_result\<rparr> s)) = console s"
  using assms
  by (simp add: verify_birthday_mismatch append_result_def birthday_retry_instruction_def
      system_message_def dialogue_state_def installed_names_def add_message_def)

theorem verify_birthday_mismatch_retries_witness:
  "map_of [(''birthday'', JString ''1990-05-05'')] ''birthday'' = Some (JString ''1990-05-05'')
   \<and> JString ''1990-05-05'' \<noteq> JString ''1983-01-01''
   \<and> dialogue_state (fst (verify_birthday
         \<lparr>arguments = [(''birthday'', JString ''1990-05-05'')],
          result_callback = append_result\<rparr> initial_session)) = Some AwaitingIdentity
   \<and> tools (llm_context (fst (verify_birthday
         \<lparr>arguments = [(''birthday'', JString ''1990-05-05'')],
          result_callback = append_result\<rparr> initial_session))) = [verify_birthday_tool]
   \<and> messages (llm_context (fst (verify_birthday
         \<lparr>arguments = [(''birthday'', JString ''1990-05-05'')],
          result_callback = append_result\<rparr> initial_session)))
       = [persona_instruction, birthday_retry_instruction]"
proof -
  have a: "map_of [(''birthday'', JString ''1990-05-05'')] ''birthday''
             = Some (JString ''1990-05-05'')"
    by simp
  have b: "JString ''1990-05-05'' \<noteq> JString ''1983-01-01''"
    by simp
  from verify_birthday_mismatch_retries [OF a b, of append_result initial_session]
  show ?thesis
    using a b
    by (simp add: append_result_def dialogue_state_def installed_names_def
        initial_session_tools initial_session_messages)
qed

section \<open>The right birthday\<close>

text \<open>
  Claim C3. When the birthday supplied is the reference value, \<open>verify_birthday\<close>
  replaces the installed tools by the single schema \<open>list_prescriptions\<close> and calls the
  result callback once with a list of exactly one message, a system instruction. With the
  callback that appends the result, \<open>list_prescriptions\<close> is the only installed name
  (\<open>verify_birthday\<close> is gone) and the conversation has grown by exactly that message.
\<close>

theorem verify_birthday_match_advances:
  assumes "map_of args ''birthday'' = Some (JString ''1983-01-01'')"
  shows "verify_birthday \<lparr>arguments = args, result_callback = cb\<rparr> s
           = cb (Some [prescriptions_instruction]) (set_tools [list_prescriptions_tool] s)
       \<and> role prescriptions_instruction = ''system''
       \<and> snd (verify_birthday \<lparr>arguments = args, result_callback = append_result\<rparr> s) = None
       \<and> tools (llm_context (fst (verify_birthday
             \<lparr>arguments = args, result_callback = append_result\<rparr> s)))
           = [list_prescriptions_tool]
       \<and> installed_names (fst (verify_birthday
             \<lparr>arguments = args, result_callback = append_result\<rparr> s))
           = [''list_prescriptions'']
       \<and> messages (llm_context (fst (verify_birthday
             \<lparr>arguments = args, result_callback = append_result\<rparr> s)))
           = messages (llm_context s) @ [prescriptions_instruction]"
  using assms
  by (simp add: verify_birthday_match append_result_def prescriptions_instruction_def
      system_message_def installed_names_def)

theorem verify_birthday_match_advances_witness:
  "map_of [(''birthday'', JString ''1983-01-01'')] ''birthday'' = Some (JString ''1983-01-01'')
   \<and> installed_names (fst (verify_birthday
         \<lparr>arguments = [(''birthday'', JString ''1983-01-01'')],
          result_callback = append_result\<rparr> initial_session)) = [''list_prescriptions'']
   \<and> messages (llm_context (fst (verify_birthday
         \<lparr>arguments = [(''birthday'', JString ''1983-01-01'')],
          result_callback = append_result\<rparr> initial_session)))
       = [persona_instruction, prescriptions_instruction]"
proof -
  have a: "map_of [(''birthday'', JString ''1983-01-01'')] ''birthday''
             = Some (JString ''1983-01-01'')"
    by simp
  from verify_birthday_match_advances [OF a, of append_result initial_session]
  show ?thesis
    using a
    by (simp add: append_result_def installed_names_def initial_session_messages)
qed

section \<open>Arguments that do not fit the schema\<close>




section \<open>Advancing does not wait for the persistence sink\<close>

lemma collection_handlers_context:
  assumes "\<And>w. llm_context (fst (cb None w)) = llm_context w"
  shows "llm_context (fst (list_prescriptions \<lparr>arguments = args, result_callback = cb\<rparr> s))
           = (llm_context s)\<lparr>tools := [list_allergies_tool],
                messages := messages (llm_context s) @ [allergies_instruction]\<rparr>"
    and "llm_context (fst (list_allergies \<lparr>arguments = args, result_callback = cb\<rparr> s))
           = (llm_context s)\<lparr>tools := [list_conditions_tool],
                messages := messages (llm_context s) @ [conditions_instruction]\<rparr>"
    and "llm_context (fst (list_conditions \<lparr>arguments = args, result_callback = cb\<rparr> s))
           = (llm_context s)\<lparr>tools := [list_visit_reasons_tool],
                messages := messages (llm_context s) @ [visit_reasons_instruction]\<rparr>"
    and "llm_context (fst (list_visit_reasons \<lparr>arguments = args, result_callback = cb\<rparr> s))
           = (llm_context s)\<lparr>tools := [],
                messages := messages (llm_context s) @ [closing_instruction]\<rparr>"
  using assms
  by (simp_all add: list_prescriptions_def list_allergies_def list_conditions_def
      list_visit_reasons_def save_data_def Let_def)

text \<open>
  Claim C4. Each collection handler installs the next tools and appends the next
  instruction first, and calls the sink (\<open>save_data\<close>, which logs and calls the result
  callback with \<open>None\<close>) last, with no check of what the sink does. So for every
  callback that leaves the conversation alone when it is given \<open>None\<close>, whether it
  returns or raises, the conversation after the handler is the advanced one; what the
  handler raises, if anything, is what the callback raised on the advanced session.
\<close>

theorem collection_advance_ignores_sink:
  assumes "\<forall>w. llm_context (fst (cb None w)) = llm_context w"
  shows "llm_context (fst (list_prescriptions \<lparr>arguments = args, result_callback = cb\<rparr> s))
           = (llm_context s)\<lparr>tools := [list_allergies_tool],
                messages := messages (llm_context s) @ [allergies_instruction]\<rparr>
       \<and> llm_context (fst (list_allergies \<lparr>arguments = args, result_callback = cb\<rparr> s))
           = (llm_context s)\<lparr>tools := [list_conditions_tool],
                messages := messages (llm_context s) @ [conditions_instruction]\<rparr>
       \<and> llm_context (fst (list_conditions \<lparr>arguments = args, result_callback = cb\<rparr> s))
           = (llm_context s)\<lparr>tools := [list_visit_reasons_tool],
                messages := messages (llm_context s) @ [visit_reasons_instruction]\<rparr>
       \<and> llm_context (fst (list_visit_reasons \<lparr>arguments = args, result_callback = cb\<rparr> s))
           = (llm_context s)\<lparr>tools := [],
                messages := messages (llm_context s) @ [closing_instruction]\<rparr>
       \<and> snd (list_prescriptions \<lparr>arguments = args, result_callback = cb\<rparr> s)
           = snd (cb None (logger_info (SavingData args)
               (queue_frame OpenAILLMContextFrame DOWNSTREAM
                 (add_message allergies_instruction
                   (set_tools [list_allergies_tool]
                     (print_line ''Processing prescription information'' s))))))"
  using assms collection_handlers_context [of cb args s]
  by (simp add: list_prescriptions_def save_data_def Let_def)

theorem collection_advance_ignores_sink_witness:
  "(\<forall>w. llm_context (fst (failing_callback None w)) = llm_context w)
   \<and> snd (list_prescriptions \<lparr>arguments = [], result_callback = failing_callback\<rparr>
            initial_session) = Some (Raised ''result callback failed'')
   \<and> tools (llm_context (fst (list_prescriptions
         \<lparr>arguments = [], result_callback = failing_callback\<rparr> initial_session)))
       = [list_allergies_tool]
   \<and> messages (llm_context (fst (list_prescriptions
         \<lparr>arguments = [], result_callback = failing_callback\<rparr> initial_session)))
       = [persona_instruction, allergies_instruction]"
proof -
  have a: "\<forall>w. llm_context (fst (failing_callback None w)) = llm_context w"
    by (simp add: failing_callback_def)
  from collection_advance_ignores_sink [of failing_callback "[]" initial_session] a
  show ?thesis
    by (simp add: failing_callback_def initial_session_messages)
qed

section \<open>The order of the dialogue states\<close>

lemma installed_names_of_tools:
  "tools (llm_context s) = ts \<Longrightarrow> installed_names s = List.map_filter tool_name ts"
  by (simp add: installed_names_def)

lemma state_names_short: "state_of_names ns = Some q \<Longrightarrow> length ns \<le> 1"
  by (auto simp add: state_of_names_def split: if_splits)

lemma run_states_known:
  assumes k: "keeps_tools cb"
  shows "permitted_run cb calls s \<Longrightarrow> dialogue_state s = Some q \<Longrightarrow>
         \<forall>s' \<in> set (run cb calls s). \<exists>q'. dialogue_state s' = Some q'"
proof (induction calls arbitrary: s q)
  case Nil
  then show ?case by simp
next
  case (Cons c cs)
  let ?s' = "fst (call_function cb (fst c) (snd c) s)"
  from Cons.prems have p: "permitted s (fst c)" and pr: "permitted_run cb cs ?s'"
    by simp_all
  from call_function_step [OF k Cons.prems(2) p, of "snd c"]
  obtain q' where "dialogue_state ?s' = Some q'"
    by blast
  from Cons.IH [OF pr this] Cons.prems(2) show ?case
    by simp
qed

text \<open>
  Claim C1, as the code has it. Take a session from its opening state and any sequence of
  tool calls each of which names a tool installed at the moment it is made, with a result
  callback that does not touch the installed tools. The dialogue states visited, repeated
  visits of the same state merged, are a prefix of AwaitingIdentity,
  CollectingPrescriptions, CollectingAllergies, CollectingConditions,
  CollectingVisitReasons, Complete: no state is skipped and none comes back. And on any
  session, each handler installs only the schema of the step after its own:
  \<open>verify_birthday\<close> installs \<open>list_prescriptions\<close> on a match and nothing otherwise,
  \<open>list_prescriptions\<close> installs \<open>list_allergies\<close>, \<open>list_allergies\<close> installs
  \<open>list_conditions\<close>, \<open>list_conditions\<close> installs \<open>list_visit_reasons\<close>, and
  \<open>list_visit_reasons\<close> installs none.
\<close>

theorem permitted_runs_follow_chain:
  assumes "keeps_tools cb" and "permitted_run cb calls initial_session"
  shows "prefix (remdups_adj (map dialogue_state (run cb calls initial_session)))
                (map Some dialogue_chain)
       \<and> tools (llm_context (fst (verify_birthday
             \<lparr>arguments = args, result_callback = cb\<rparr> s)))
           = (if map_of args ''birthday'' = Some (JString ''1983-01-01'')
              then [list_prescriptions_tool] else tools (llm_context s))
       \<and> tools (llm_context (fst (list_prescriptions
             \<lparr>arguments = args, result_callback = cb\<rparr> s))) = [list_allergies_tool]
       \<and> tools (llm_context (fst (list_allergies
             \<lparr>arguments = args, result_callback = cb\<rparr> s))) = [list_conditions_tool]
       \<and> tools (llm_context (fst (list_conditions
             \<lparr>arguments = args, result_callback = cb\<rparr> s))) = [list_visit_reasons_tool]
       \<and> tools (llm_context (fst (list_visit_reasons
             \<lparr>arguments = args, result_callback = cb\<rparr> s))) = []"
proof -
  have "dropWhile (\<lambda>x. x \<noteq> AwaitingIdentity) dialogue_chain = dialogue_chain"
    by (simp add: dialogue_chain_def)
  with run_visits_chain [OF assms(1) assms(2) initial_session_state]
  have "prefix (remdups_adj (map dialogue_state (run cb calls initial_session)))
               (map Some dialogue_chain)"
    by simp
  then show ?thesis
    using assms(1)
    by (simp add: verify_birthday_tools list_prescriptions_tools list_allergies_tools
        list_conditions_tools list_visit_reasons_tools)
qed

theorem permitted_runs_follow_chain_witness:
  "keeps_tools append_result
   \<and> permitted_run append_result
        [(''verify_birthday'', [(''birthday'', JString ''1990-05-05'')]),
         (''verify_birthday'', [(''birthday'', JString ''1983-01-01'')]),
         (''list_prescriptions'', []),
         (''list_allergies'', []),
         (''list_conditions'', []),
         (''list_visit_reasons'', [])] initial_session
   \<and> prefix (remdups_adj (map dialogue_state (run append_result
        [(''verify_birthday'', [(''birthday'', JString ''1990-05-05'')]),
         (''verify_birthday'', [(''birthday'', JString ''1983-01-01'')]),
         (''list_prescriptions'', []),
         (''list_allergies'', []),
         (''list_conditions'', []),
         (''list_visit_reasons'', [])] initial_session)))
        (map Some dialogue_chain)"
proof -
  have p: "permitted_run append_result
        [(''verify_birthday'', [(''birthday'', JString ''1990-05-05'')]),
         (''verify_birthday'', [(''birthday'', JString ''1983-01-01'')]),
         (''list_prescriptions'', []),
         (''list_allergies'', []),
         (''list_conditions'', []),
         (''list_visit_reasons'', [])] initial_session"
    by code_simp
  from permitted_runs_follow_chain [OF keeps_tools_append_result p]
  show ?thesis
    using keeps_tools_append_result p by blast
qed

text \<open>
  Claim C1 as it is written speaks of every sequence of tool calls. The handlers are
  registered by name for the whole session and none of them looks at the installed tools,
  so a call that names a tool that is not installed is still carried out:
  \<open>list_visit_reasons\<close> called first leads from AwaitingIdentity straight to Complete,
  and a matching \<open>verify_birthday\<close> after it leads back to CollectingPrescriptions.
\<close>

theorem unguarded_calls_leave_chain:
  "\<not> prefix (remdups_adj (map dialogue_state (run append_result
            [(''list_visit_reasons'', []),
             (''verify_birthday'', [(''birthday'', JString ''1983-01-01'')])]
            initial_session)))
          (map Some dialogue_chain)"
  by code_simp

section \<open>Only the installed tools are offered\<close>

text \<open>
  Claim C6, as the code has it. The names offered to the generation stage are the names of
  the installed tools, and \<open>set_tools\<close> replaces the tool list: after a handler has
  advanced, the installed names are exactly the name of the next step (none after
  \<open>list_visit_reasons\<close>), so the name of the step just left is no longer installed, and
  along every session of calls to installed tools at most one tool is installed at any
  time. The five handlers stay registered under their names for the whole session, and
  the dispatch by name does not look at the installed tools: a call to any of the five
  names runs its handler in whatever state the conversation is.
\<close>

theorem installed_tools_replaced:
  assumes "keeps_tools cb" and "permitted_run cb calls initial_session"
  shows "installed_names (fst (verify_birthday \<lparr>arguments = args, result_callback = cb\<rparr> s))
           = (if map_of args ''birthday'' = Some (JString ''1983-01-01'')
              then [''list_prescriptions''] else installed_names s)
       \<and> installed_names (fst (list_prescriptions
             \<lparr>arguments = args, result_callback = cb\<rparr> s)) = [''list_allergies'']
       \<and> installed_names (fst (list_allergies
             \<lparr>arguments = args, result_callback = cb\<rparr> s)) = [''list_conditions'']
       \<and> installed_names (fst (list_conditions
             \<lparr>arguments = args, result_callback = cb\<rparr> s)) = [''list_visit_reasons'']
       \<and> installed_names (fst (list_visit_reasons
             \<lparr>arguments = args, result_callback = cb\<rparr> s)) = []
       \<and> (\<forall>s' \<in> set (run cb calls initial_session). length (installed_names s') \<le> 1)
       \<and> map fst registered_functions
           = [''verify_birthday'', ''list_prescriptions'', ''list_allergies'',
              ''list_conditions'', ''list_visit_reasons'']
       \<and> call_function cb ''verify_birthday'' args s
           = verify_birthday \<lparr>arguments = args, result_callback = cb\<rparr> s
       \<and> call_function cb ''list_prescriptions'' args s
           = list_prescriptions \<lparr>arguments = args, result_callback = cb\<rparr> s
       \<and> call_function cb ''list_allergies'' args s
           = list_allergies \<lparr>arguments = args, result_callback = cb\<rparr> s
       \<and> call_function cb ''list_conditions'' args s
           = list_conditions \<lparr>arguments = args, result_callback = cb\<rparr> s
       \<and> call_function cb ''list_visit_reasons'' args s
           = list_visit_reasons \<lparr>arguments = args, result_callback = cb\<rparr> s"
proof -
  have vb: "installed_names (fst (verify_birthday
               \<lparr>arguments = args, result_callback = cb\<rparr> s))
           = (if map_of args ''birthday'' = Some (JString ''1983-01-01'')
              then [''list_prescriptions''] else installed_names s)"
    using verify_birthday_tools [OF assms(1), of args s]
    by (simp add: installed_names_def)
  have lp: "installed_names (fst (list_prescriptions
               \<lparr>arguments = args, result_callback = cb\<rparr> s)) = [''list_allergies'']"
    using installed_names_of_tools [OF list_prescriptions_tools [OF assms(1), of args s]]
    by simp
  have la: "installed_names (fst (list_allergies
               \<lparr>arguments = args, result_callback = cb\<rparr> s)) = [''list_conditions'']"
    using installed_names_of_tools [OF list_allergies_tools [OF assms(1), of args s]]
    by simp
  have lc: "installed_names (fst (list_conditions
               \<lparr>arguments = args, result_callback = cb\<rparr> s)) = [''list_visit_reasons'']"
    using installed_names_of_tools [OF list_conditions_tools [OF assms(1), of args s]]
    by simp
  have lv: "installed_names (fst (list_visit_reasons
               \<lparr>arguments = args, result_callback = cb\<rparr> s)) = []"
    using installed_names_of_tools [OF list_visit_reasons_tools [OF assms(1), of args s]]
    by simp
  have inv: "\<forall>s' \<in> set (run cb calls initial_session). length (installed_names s') \<le> 1"
  proof
    fix s'
    assume "s' \<in> set (run cb calls initial_session)"
    with run_states_known [OF assms(1) assms(2) initial_session_state]
    obtain q' where "dialogue_state s' = Some q'"
      by blast
    then show "length (installed_names s') \<le> 1"
      using state_names_short [of "installed_names s'" q']
      by (simp add: dialogue_state_def)
  qed
  have reg: "map fst registered_functions
           = [''verify_birthday'', ''list_prescriptions'', ''list_allergies'',
              ''list_conditions'', ''list_visit_reasons'']"
    by (simp add: registered_functions_def)
  show ?thesis
    unfolding lp la lc lv call_function_registered
    using vb inv reg by simp
qed

theorem installed_tools_replaced_witness:
  "keeps_tools append_result
   \<and> permitted_run append_result
        [(''verify_birthday'', [(''birthday'', JString ''1983-01-01'')]),
         (''list_prescriptions'', [])] initial_session
   \<and> installed_names (fst (verify_birthday
        \<lparr>arguments = [(''birthday'', JString ''1983-01-01'')],
         result_callback = append_result\<rparr> initial_session)) = [''list_prescriptions'']
   \<and> installed_names (fst (list_prescriptions
        \<lparr>arguments = [(''birthday'', JString ''1983-01-01'')],
         result_callback = append_result\<rparr> initial_session)) = [''list_allergies'']
   \<and> length (installed_names initial_session) \<le> 1"
proof -
  have p: "permitted_run append_result
        [(''verify_birthday'', [(''birthday'', JString ''1983-01-01'')]),
         (''list_prescriptions'', [])] initial_session"
    by code_simp
  have m: "map_of [(''birthday'', JString ''1983-01-01'')] ''birthday''
             = Some (JString ''1983-01-01'')"
    by simp
  note t = installed_tools_replaced [OF keeps_tools_append_result p,
      of "[(''birthday'', JString ''1983-01-01'')]" initial_session]
  from t have a: "installed_names (fst (verify_birthday
        \<lparr>arguments = [(''birthday'', JString ''1983-01-01'')],
         result_callback = append_result\<rparr> initial_session)) = [''list_prescriptions'']"
    using m by simp
  from t have b: "installed_names (fst (list_prescriptions
        \<lparr>arguments = [(''birthday'', JString ''1983-01-01'')],
         result_callback = append_result\<rparr> initial_session)) = [''list_allergies'']"
    by simp
  from t have c: "length (installed_names initial_session) \<le> 1"
    by simp
  from keeps_tools_append_result p a b c show ?thesis
    by simp
qed

text \<open>
  Claim C6 as it is written says that the tool of a step that was left can no longer be
  called. Nothing in the code refuses such a call. After the birthday was confirmed and
  the prescriptions were listed, \<open>verify_birthday\<close> is not installed and the
  conversation collects allergies; a call to \<open>verify_birthday\<close> is carried out all the
  same, raises nothing, and puts the conversation back to collecting prescriptions.
\<close>

theorem stale_call_is_carried_out:
  "''verify_birthday'' \<notin> set (installed_names (last (run append_result
        [(''verify_birthday'', [(''birthday'', JString ''1983-01-01'')]),
         (''list_prescriptions'', [])] initial_session)))
   \<and> dialogue_state (last (run append_result
        [(''verify_birthday'', [(''birthday'', JString ''1983-01-01'')]),
         (''list_prescriptions'', [])] initial_session)) = Some CollectingAllergies
   \<and> snd (call_function append_result ''verify_birthday''
        [(''birthday'', JString ''1983-01-01'')]
        (last (run append_result
          [(''verify_birthday'', [(''birthday'', JString ''1983-01-01'')]),
           (''list_prescriptions'', [])] initial_session))) = None
   \<and> dialogue_state (fst (call_function append_result ''verify_birthday''
        [(''birthday'', JString ''1983-01-01'')]
        (last (run append_result
          [(''verify_birthday'', [(''birthday'', JString ''1983-01-01'')]),
           (''list_prescriptions'', [])] initial_session)))) = Some CollectingPrescriptions"
  by code_simp

section \<open>The terminal state\<close>

text \<open>
  Claim C7. After \<open>list_visit_reasons\<close> the tool list of the conversation is empty: no
  name is installed, the dialogue state is Complete, no tool call is permitted, and so no
  non-empty sequence of permitted calls can follow.
\<close>

theorem complete_has_no_tools:
  assumes "keeps_tools cb"
  shows "tools (llm_context (fst (list_visit_reasons
             \<lparr>arguments = args, result_callback = cb\<rparr> s))) = []
       \<and> installed_names (fst (list_visit_reasons
             \<lparr>arguments = args, result_callback = cb\<rparr> s)) = []
       \<and> dialogue_state (fst (list_visit_reasons
             \<lparr>arguments = args, result_callback = cb\<rparr> s)) = Some Complete
       \<and> (\<forall>n. \<not> permitted (fst (list_visit_reasons
             \<lparr>arguments = args, result_callback = cb\<rparr> s)) n)
       \<and> (\<forall>c cs. \<not> permitted_run cb (c # cs) (fst (list_visit_reasons
             \<lparr>arguments = args, result_callback = cb\<rparr> s)))"
proof -
  let ?s' = "fst (list_visit_reasons \<lparr>arguments = args, result_callback = cb\<rparr> s)"
  have t: "tools (llm_context ?s') = []"
    by (rule list_visit_reasons_tools [OF assms])
  have n: "installed_names ?s' = []"
    using installed_names_of_tools [OF t] by simp
  have d: "dialogue_state ?s' = Some Complete"
    using dialogue_state_of_tools [OF t] by simp
  have p: "\<forall>n. \<not> permitted ?s' n"
    by (simp add: permitted_def n)
  have r: "\<forall>c cs. \<not> permitted_run cb (c # cs) ?s'"
    using p by simp
  from t n d p r show ?thesis
    by simp
qed

theorem complete_has_no_tools_witness:
  "keeps_tools append_result
   \<and> tools (llm_context (fst (list_visit_reasons
        \<lparr>arguments = [], result_callback = append_result\<rparr> initial_session))) = []
   \<and> dialogue_state (fst (list_visit_reasons
        \<lparr>arguments = [], result_callback = append_result\<rparr> initial_session)) = Some Complete
   \<and> \<not> permitted (fst (list_visit_reasons
        \<lparr>arguments = [], result_callback = append_result\<rparr> initial_session))
        ''list_visit_reasons''"
  using complete_has_no_tools [OF keeps_tools_append_result, of "[]" initial_session]
        keeps_tools_append_result
  by simp

section \<open>Flushing the recording\<close>





lemma ascii_length [simp]: "length (ascii cs) = length cs"
  by (simp add: ascii_def)

lemma le16_length [simp]: "length (le16 n) = 2"
  by (simp add: le16_def)

lemma le32_length [simp]: "length (le32 n) = 4"
  by (simp add: le32_def)





section \<open>Opening a socket session\<close>

text \<open>
  Claim C9. The endpoint drops the first message unread, parses the second, takes
  \<open>streamSid\<close> and \<open>callSid\<close> out of its \<open>start\<close> object and calls
  \<open>run_voice_assistant\<close> with exactly these two values, whatever they are, together with
  the rest of the socket and the testing flag; \<open>run_voice_assistant\<close> hands them to the
  serializer unchanged.
\<close>

theorem websocket_endpoint_passes_ids:
  assumes "loads second = Inr call_data"
    and "getitem call_data ''start'' = Inr start"
    and "getitem start ''streamSid'' = Inr a"
    and "getitem start ''callSid'' = Inr b"
  shows "websocket_endpoint loads t (first # second # rest)
           = Inr \<lparr>websocket_client = rest, stream_sid = a, call_sid = b, testing = t\<rparr>
       \<and> serializer_stream_sid (run_voice_assistant_serializer acc tok
             \<lparr>websocket_client = rest, stream_sid = a, call_sid = b, testing = t\<rparr>) = a
       \<and> serializer_call_sid (run_voice_assistant_serializer acc tok
             \<lparr>websocket_client = rest, stream_sid = a, call_sid = b, testing = t\<rparr>) = b"
  using assms
  by (simp add: websocket_endpoint_def run_voice_assistant_serializer_def)

theorem websocket_endpoint_passes_ids_witness:
  "loads_start ''start'' = Inr start_message
   \<and> getitem start_message ''start''
       = Inr (JObject [(''streamSid'', JString ''MZ-1 not a uuid''), (''callSid'', JInt 42)])
   \<and> websocket_endpoint loads_start False [''connected'', ''start'', ''media'']
       = Inr \<lparr>websocket_client = [''media''], stream_sid = JString ''MZ-1 not a uuid'',
              call_sid = JInt 42, testing = False\<rparr>"
proof -
  have l: "loads_start ''start'' = Inr start_message"
    by (simp add: loads_start_def)
  have s: "getitem start_message ''start''
       = Inr (JObject [(''streamSid'', JString ''MZ-1 not a uuid''), (''callSid'', JInt 42)])"
    by (simp add: start_message_def)
  have a: "getitem (JObject [(''streamSid'', JString ''MZ-1 not a uuid''), (''callSid'', JInt 42)])
             ''streamSid'' = Inr (JString ''MZ-1 not a uuid'')"
    by simp
  have b: "getitem (JObject [(''streamSid'', JString ''MZ-1 not a uuid''), (''callSid'', JInt 42)])
             ''callSid'' = Inr (JInt 42)"
    by simp
  note t = websocket_endpoint_passes_ids [of loads_start "''start''" start_message
      "JObject [(''streamSid'', JString ''MZ-1 not a uuid''), (''callSid'', JInt 42)]"
      "JString ''MZ-1 not a uuid''" "JInt 42" False "''connected''" "[''media'']"]
  from t [OF l s a b] l s show ?thesis
    by simp
qed

end
